theory Spec2Isabelle
  imports Complex_Main "HOL-Library.Word"
begin

section \<open>JavaScript strings\<close>

text \<open>
  The front end is TypeScript. A JavaScript string is a sequence of UTF-16 code units, so
  a string is a list of 16-bit words here, and a literal of the source is written
  \<open>js ''...''\<close>. A JavaScript \<open>number\<close> that arrives in a JSON body is a finite
  double; the only operations the modelled code applies to one are comparisons with zero
  and copying, on which the finite doubles agree with the reals that they denote, so a
  \<open>number\<close> is a \<open>real\<close>.
\<close>

type_synonym jschar = "16 word"
type_synonym jsstring = "jschar list"

definition js :: "string \<Rightarrow> jsstring" where
  "js s = map of_char s"

text \<open>
  \<open>String.prototype.trim\<close> removes white space and line terminators from both ends:
  TAB, LF, VT, FF, CR, SP, NBSP, the Unicode space separators (U+1680, U+2000 to U+200A,
  U+202F, U+205F, U+3000), LS, PS and the byte order mark U+FEFF.
\<close>

definition isWhiteSpace :: "jschar \<Rightarrow> bool" where
  "isWhiteSpace c \<longleftrightarrow>
     c = 0x09 \<or> c = 0x0A \<or> c = 0x0B \<or> c = 0x0C \<or> c = 0x0D \<or> c = 0x20 \<or> c = 0xA0 \<or>
     c = 0x1680 \<or> (0x2000 \<le> c \<and> c \<le> 0x200A) \<or> c = 0x2028 \<or> c = 0x2029 \<or>
     c = 0x202F \<or> c = 0x205F \<or> c = 0x3000 \<or> c = 0xFEFF"

definition trim :: "jsstring \<Rightarrow> jsstring" where
  "trim s = rev (dropWhile isWhiteSpace (rev (dropWhile isWhiteSpace s)))"

text \<open>
  The regular expressions of the source carry no \<open>u\<close> or \<open>i\<close> flag, so \<open>\w\<close> is
  the ASCII class \<open>[A-Za-z0-9_]\<close>. \<open>toUpperCase\<close> is only ever applied to a
  single character matched by \<open>\w\<close>, where it maps \<open>a\<close>..\<open>z\<close> to
  \<open>A\<close>..\<open>Z\<close> and leaves digits, capitals and the underscore alone.
\<close>

definition isWordChar :: "jschar \<Rightarrow> bool" where
  "isWordChar c \<longleftrightarrow>
     (0x30 \<le> c \<and> c \<le> 0x39) \<or> (0x41 \<le> c \<and> c \<le> 0x5A) \<or> c = 0x5F \<or>
     (0x61 \<le> c \<and> c \<le> 0x7A)"

definition toUpperCase :: "jschar \<Rightarrow> jschar" where
  "toUpperCase c = (if 0x61 \<le> c \<and> c \<le> 0x7A then c - 0x20 else c)"

section \<open>types/index.ts: the data the front end receives\<close>

text \<open>
  A value of TypeScript type \<open>any\<close> that came out of a JSON body is a JSON value. An
  object used as a dictionary (\<open>Record<string, T>\<close>) is represented by the list of
  its entries in the order in which \<open>Object.entries\<close> enumerates them.
\<close>

datatype json =
    JNull
  | JBool bool
  | JNumber real
  | JString jsstring
  | JArray "json list"
  | JObject "(jsstring \<times> json) list"

type_synonym 'a js_record = "(jsstring \<times> 'a) list"

text \<open>
  The interface \<open>ObservabilityData\<close> nests anonymous object types; each gets a record
  of its own, named after the place it occupies. \<open>id\<close> and \<open>context\<close> are
  written \<open>id'\<close> and \<open>context'\<close>.
\<close>

record ObsMessage =
  id' :: jsstring
  role :: jsstring
  content :: jsstring
  tokens :: real
  timestamp :: jsstring
  includedInPrompt :: bool

record ObsShortTerm =
  messages :: "ObsMessage list"
  summary :: "jsstring option"

record ObsLongTerm =
  preferences :: "json js_record"
  behavior_patterns :: "json js_record"
  context' :: "json js_record"
  last_updated :: jsstring

record ObsRelevantMemory =
  content :: jsstring
  metadata :: "json js_record"

record ObsSemantic =
  relevant_memories :: "ObsRelevantMemory list"

record ObsFeedback =
  corrections :: "json list"

record ObsTokenUsage =
  total :: real
  estimated_response :: real
  cost :: real
  breakdown :: "real js_record"

record ObsStep =
  name :: jsstring
  latency_ms :: real

record ObsTrace =
  steps :: "ObsStep list"
  total_latency_ms :: real

record ObservabilityData =
  request_id :: jsstring
  short_term_memory :: ObsShortTerm
  long_term_memory :: ObsLongTerm
  semantic_memory :: ObsSemantic
  feedback_memory :: ObsFeedback
  token_usage :: ObsTokenUsage
  request_trace :: ObsTrace

datatype role = user | assistant | system

record Message =
  id' :: jsstring
  role :: role
  content :: jsstring
  timestamp :: jsstring

record ChatMessageResponse =
  response :: jsstring
  conversation_id :: jsstring
  message_id :: jsstring
  observability :: ObservabilityData

subsection \<open>The interface declaration itself\<close>

text \<open>
  A claim about which fields the interface has cannot be put as a property of a record,
  so the declaration of \<open>ObservabilityData\<close> (lines 15 to 56 of the source) is also
  written down as a term: the TypeScript type expressions that occur in it, and the
  declaration with its fields in source order.
\<close>

datatype ts_type =
    TString
  | TNumber
  | TBoolean
  | TAny
  | TNullable ts_type
  | TArray ts_type
  | TRecord ts_type
  | TObject "(string \<times> ts_type) list"

definition ObsMessage_decl :: ts_type where
  "ObsMessage_decl = TObject
     [(''id'', TString), (''role'', TString), (''content'', TString), (''tokens'', TNumber),
      (''timestamp'', TString), (''includedInPrompt'', TBoolean)]"

definition ObsTokenUsage_decl :: ts_type where
  "ObsTokenUsage_decl = TObject
     [(''total'', TNumber), (''estimated_response'', TNumber), (''cost'', TNumber),
      (''breakdown'', TRecord TNumber)]"

definition ObservabilityData_decl :: ts_type where
  "ObservabilityData_decl = TObject
     [(''request_id'', TString),
      (''short_term_memory'', TObject
         [(''messages'', TArray ObsMessage_decl), (''summary'', TNullable TString)]),
      (''long_term_memory'', TObject
         [(''preferences'', TRecord TAny), (''behavior_patterns'', TRecord TAny),
          (''context'', TRecord TAny), (''last_updated'', TString)]),
      (''semantic_memory'', TObject
         [(''relevant_memories'', TArray (TObject
            [(''content'', TString), (''metadata'', TRecord TAny)]))]),
      (''feedback_memory'', TObject [(''corrections'', TArray TAny)]),
      (''token_usage'', ObsTokenUsage_decl),
      (''request_trace'', TObject
         [(''steps'', TArray (TObject [(''name'', TString), (''latency_ms'', TNumber)])),
          (''total_latency_ms'', TNumber)])]"

text \<open>The members of an object type, and the type of one member.\<close>

fun members :: "ts_type \<Rightarrow> (string \<times> ts_type) list" where
  "members (TObject fs) = fs"
| "members _ = []"

definition field_names :: "ts_type \<Rightarrow> string list" where
  "field_names t = map fst (members t)"

definition field_type :: "ts_type \<Rightarrow> string \<Rightarrow> ts_type option" where
  "field_type t f = map_of (members t) f"

text \<open>
  The type of the elements of \<open>short_term_memory.messages\<close>, read off the declaration
  by following the path; \<open>None\<close> when the path does not exist.
\<close>

definition short_term_message_type :: "ts_type option" where
  "short_term_message_type =
     (case field_type ObservabilityData_decl ''short_term_memory'' of
        Some stm \<Rightarrow>
          (case field_type stm ''messages'' of Some (TArray m) \<Rightarrow> Some m | _ \<Rightarrow> None)
      | None \<Rightarrow> None)"

text \<open>
  The interface \<open>ChatMessageResponse\<close> (lines 8 to 13 of the source), the body of the
  response to a turn as the front end declares it.
\<close>

definition ChatMessageResponse_decl :: ts_type where
  "ChatMessageResponse_decl = TObject
     [(''response'', TString), (''conversation_id'', TString), (''message_id'', TString),
      (''observability'', ObservabilityData_decl)]"

text \<open>
  The type reached from a type by a path of member names, and the element type of an
  array type; \<open>None\<close> when there is no such member or the type is not an array.
\<close>

fun member_at :: "string list \<Rightarrow> ts_type \<Rightarrow> ts_type option" where
  "member_at [] t = Some t"
| "member_at (f # fs) t =
     (case field_type t f of None \<Rightarrow> None | Some t' \<Rightarrow> member_at fs t')"

fun element :: "ts_type option \<Rightarrow> ts_type option" where
  "element (Some (TArray t)) = Some t"
| "element _ = None"

text \<open>
  Two ways in which one object type can differ from another: members under other names,
  given as pairs of old and new name, and a member left out.
\<close>

fun rename_members :: "(string \<times> string) list \<Rightarrow> ts_type \<Rightarrow> ts_type" where
  "rename_members rn (TObject fs) =
     TObject (map (\<lambda>(f, t). (case map_of rn f of None \<Rightarrow> f | Some g \<Rightarrow> g, t)) fs)"
| "rename_members rn t = t"

fun drop_member :: "string \<Rightarrow> ts_type \<Rightarrow> ts_type" where
  "drop_member f (TObject fs) = TObject (filter (\<lambda>(g, t). g \<noteq> f) fs)"
| "drop_member f t = t"

section \<open>MemoryDashboard\<close>

text \<open>
  \<^verbatim>\<open>
    const tokenData = Object.entries(data.token_usage.breakdown).map(([name, value]) => ({
        name: name.replace(/_/g, ' ').replace(/\b\w/g, l => l.toUpperCase()),
        value
    })).filter(d => d.value > 0);
  \<close>
  The first replacement turns every underscore into a space. The second visits every
  match of \<open>\b\w\<close> from left to right: a word character at a word boundary, that is,
  one that starts the string or follows a character that is not a word character. The
  boundary is judged on the string being searched, not on the replacements already made.
  \<open>capitalize_from prev s\<close> carries whether the character before \<open>s\<close> is a word
  character.
\<close>

definition replace_underscores :: "jsstring \<Rightarrow> jsstring" where
  "replace_underscores s = map (\<lambda>c. if c = 0x5F then 0x20 else c) s"

fun capitalize_from :: "bool \<Rightarrow> jsstring \<Rightarrow> jsstring" where
  "capitalize_from prev [] = []"
| "capitalize_from prev (c # cs) =
     (if isWordChar c \<and> \<not> prev then toUpperCase c else c) # capitalize_from (isWordChar c) cs"

definition capitalize_words :: "jsstring \<Rightarrow> jsstring" where
  "capitalize_words s = capitalize_from False s"

definition display_name :: "jsstring \<Rightarrow> jsstring" where
  "display_name n = capitalize_words (replace_underscores n)"

definition tokenData :: "ObservabilityData \<Rightarrow> (jsstring \<times> real) list" where
  "tokenData data =
     filter (\<lambda>d. snd d > 0)
       (map (\<lambda>(n, v). (display_name n, v)) (breakdown (token_usage data)))"

text \<open>
  What the component renders. With \<open>data\<close> null it returns the standby placeholder
  before anything else is computed. Otherwise it shows the first eight code units of the
  request id, the token total and cost, the chart of \<open>tokenData\<close>, the sizes of the
  three memory lists, and the steps of the trace with the total. Number formatting
  (\<open>toFixed\<close>), the preference tags and the detail overlay, which is closed until a card
  is clicked, are left out of the rendered content.
\<close>

record dashboard_content =
  obs_label :: jsstring
  tokens_shown :: real
  cost_shown :: real
  chart :: "(jsstring \<times> real) list"
  recent_count :: nat
  semantic_count :: nat
  feedback_count :: nat
  trace_rows :: "(jsstring \<times> real) list"
  trace_total :: real

datatype view = Standby | Dashboard dashboard_content

definition MemoryDashboard :: "ObservabilityData option \<Rightarrow> view" where
  "MemoryDashboard data =
     (case data of
        None \<Rightarrow> Standby
      | Some d \<Rightarrow> Dashboard
          \<lparr>obs_label = take 8 (request_id d),
           tokens_shown = total (token_usage d),
           cost_shown = cost (token_usage d),
           chart = tokenData d,
           recent_count = length (messages (short_term_memory d)),
           semantic_count = length (relevant_memories (semantic_memory d)),
           feedback_count = length (corrections (feedback_memory d)),
           trace_rows = map (\<lambda>step. (name step, latency_ms step)) (steps (request_trace d)),
           trace_total = total_latency_ms (request_trace d)\<rparr>)"

section \<open>App: handleSendMessage\<close>

text \<open>
  The state of the \<open>App\<close> component is its five \<open>useState\<close> cells.
\<close>

datatype tab = chat | memory

record App_state =
  messages :: "Message list"
  conversationId :: "jsstring option"
  isLoading :: bool
  observability :: "ObservabilityData option"
  activeTab :: tab

text \<open>
  \<open>handleSendMessage\<close> reads the clock and awaits \<open>chatApi.sendMessage\<close>; both are
  inputs of the model. \<open>clock\<close> holds the strings the clock reads produce.
  \<open>api_outcome\<close> is what the awaited promise does: it rejects, or it resolves with
  the body of the response; \<open>Resolved None\<close> stands for a body that is \<open>null\<close> or
  \<open>undefined\<close>, on which \<open>result.message_id\<close> throws inside the \<open>try\<close> block
  before any state is set.

  The function returns the state after all its updates together with the requests it
  issued, each the pair of arguments passed to \<open>chatApi.sendMessage\<close>. The state
  updates of one call are applied in order to the state the call started from; updates
  by other handlers that run while the promise is pending are not part of the model.
\<close>

record clock =
  now_start :: jsstring
  iso_start :: jsstring
  now_catch :: jsstring
  iso_reply :: jsstring

datatype api_outcome = Rejected | Resolved "ChatMessageResponse option"

definition userMessage :: "clock \<Rightarrow> jsstring \<Rightarrow> Message" where
  "userMessage clk text =
     \<lparr>id' = now_start clk, role = user, content = text, timestamp = iso_start clk\<rparr>"

definition assistantMessage :: "clock \<Rightarrow> ChatMessageResponse \<Rightarrow> Message" where
  "assistantMessage clk result =
     \<lparr>id' = message_id result, role = assistant, content = response result,
      timestamp = iso_reply clk\<rparr>"

definition errorMessage :: "clock \<Rightarrow> Message" where
  "errorMessage clk =
     \<lparr>id' = now_catch clk @ js ''_error'', role = assistant,
      content = js ''Sorry, something went wrong. Please try again.'',
      timestamp = iso_reply clk\<rparr>"

definition handleSendMessage ::
  "clock \<Rightarrow> api_outcome \<Rightarrow> App_state \<Rightarrow> jsstring \<Rightarrow>
     App_state \<times> (jsstring \<times> jsstring option) list" where
  "handleSendMessage clk outcome st text =
     (if trim text = [] then (st, [])
      else
        let st1 = st\<lparr>messages := messages st @ [userMessage clk text], isLoading := True\<rparr>;
            st2 = (case outcome of
                Resolved (Some result) \<Rightarrow>
                  st1\<lparr>messages := messages st1 @ [assistantMessage clk result],
                      conversationId := Some (conversation_id result),
                      observability := Some (ChatMessageResponse.observability result)\<rparr>
              | Resolved None \<Rightarrow> st1\<lparr>messages := messages st1 @ [errorMessage clk]\<rparr>
              | Rejected \<Rightarrow> st1\<lparr>messages := messages st1 @ [errorMessage clk]\<rparr>)
        in (st2\<lparr>isLoading := False\<rparr>, [(text, conversationId st)]))"

text \<open>
  What \<open>App\<close> hands to the dashboard: \<open><MemoryDashboard data={observability} />\<close>.
\<close>

definition App_dashboard :: "App_state \<Rightarrow> view" where
  "App_dashboard st = MemoryDashboard (observability st)"

section \<open>ChatWindow.tsx\<close>

text \<open>
  The component keeps one piece of state, \<open>input\<close>, and receives \<open>isLoading\<close> and
  the callback \<open>onSendMessage\<close> as props. \<open>handleSubmit\<close> returns the new value of
  \<open>input\<close> together with the arguments of the calls it made to \<open>onSendMessage\<close>,
  in order:
  \<^verbatim>\<open>
    if (input.trim() && !isLoading) { onSendMessage(input); setInput(''); }
  \<close>
  The prop \<open>isLoading\<close> is the argument \<open>loading\<close>; \<open>e.preventDefault()\<close>
  only stops the browser from reloading the page. An empty string is the only falsy
  string, so \<open>input.trim()\<close> is truthy exactly when the trimmed string is not empty.
\<close>

definition handleSubmit :: "bool \<Rightarrow> jsstring \<Rightarrow> jsstring \<times> jsstring list" where
  "handleSubmit loading input =
     (if trim input \<noteq> [] \<and> \<not> loading then (js '''', [input]) else (input, []))"

text \<open>The \<open>disabled\<close> attribute of the submit button: \<open>!input.trim() || isLoading\<close>.\<close>

definition submit_disabled :: "bool \<Rightarrow> jsstring \<Rightarrow> bool" where
  "submit_disabled loading input \<longleftrightarrow> trim input = [] \<or> loading"

section \<open>The memory engine\<close>

text \<open>
  The front end reaches the engine through \<open>chatApi.sendMessage\<close> only. The engine
  itself (the four memory layers, the prompt assembler, the orchestrator and the
  recorder) is the back end of this repository, and none of its code is among the source
  files. Every definition of this section therefore follows the words of the
  specification, and says so; the external capabilities the specification names, such
  as the token counter, the embedding and the language model, are parameters.
\<close>

text \<open>
  Modelled from the spec: users and conversations of the absent back end are identified
  by strings.
\<close>

type_synonym user_id = jsstring
type_synonym conversation_id = jsstring

text \<open>
  Modelled from the spec: the data model's \<open>Turn\<close>: id, role, content, token count,
  creation time and the flag \<open>included_in_prompt\<close>. Texts are the strings the front
  end posts; times are whole ticks of a clock.
\<close>

record Turn =
  id' :: jsstring
  role :: role
  content :: jsstring
  token_count :: nat
  created_at :: nat
  included_in_prompt :: bool

text \<open>
  Modelled from the spec: the data model's \<open>ConversationBuffer\<close>, the ordered turns
  and the optional rolling summary.
\<close>

record ConversationBuffer =
  buffer :: "Turn list"
  summary :: "jsstring option"

text \<open>
  Modelled from the spec: the data model's \<open>UserProfile\<close>, three key-value
  mappings and the time of the last update; the values are JSON values.
\<close>

record UserProfile =
  preferences :: "json js_record"
  behavior_patterns :: "json js_record"
  context' :: "json js_record"
  last_updated :: nat

text \<open>
  Modelled from the spec: the data model's \<open>SemanticRecord\<close>: content, metadata
  and embedding vector.
\<close>

record SemanticRecord =
  content :: jsstring
  metadata :: "json js_record"
  embedding :: "real list"

text \<open>
  Modelled from the spec: the data model's \<open>Correction\<close>.
\<close>

record Correction =
  trigger_excerpt :: jsstring
  correction_text :: jsstring
  created_at :: nat

text \<open>
  Modelled from the spec: one entry of \<open>RequestTrace.steps\<close>, a name with a latency in
  whole milliseconds.
\<close>

record Step =
  name :: jsstring
  latency_ms :: int

text \<open>
  Modelled from the spec: the data model's \<open>RequestTrace\<close>.
\<close>

record RequestTrace =
  steps :: "Step list"
  total_latency_ms :: int

text \<open>
  Modelled from the spec: the data model's \<open>TokenUsage\<close>.
\<close>

record TokenUsage =
  total :: nat
  estimated_response :: nat
  cost :: real
  breakdown :: "(jsstring \<times> nat) list"

text \<open>
  Modelled from the spec: the observability trace that \<open>handle_turn\<close> returns, with
  the six fields the spec lists for it.
\<close>

record ObservabilityTrace =
  short_term_memory :: ConversationBuffer
  long_term_memory :: UserProfile
  semantic_memory :: "SemanticRecord list"
  feedback_memory :: "Correction list"
  token_usage :: TokenUsage
  request_trace :: RequestTrace

subsection \<open>The data model as type expressions\<close>

text \<open>
  Modelled from the spec: the entities of the data model (section 3), written as the type
  expressions of their JSON form, to be compared with the interface the front end
  declares. A text, an id, a role and a timestamp are strings, an integer and a decimal
  are numbers, a mapping from strings to values is a \<open>Record<string, any>\<close>, a vector
  and a sequence are arrays. This one is \<open>Turn\<close>.
\<close>

definition Turn_model :: ts_type where
  "Turn_model = TObject
     [(''id'', TString), (''role'', TString), (''content'', TString),
      (''token_count'', TNumber), (''created_at'', TString), (''included_in_prompt'', TBoolean)]"

text \<open>
  Modelled from the spec: \<open>ConversationBuffer\<close> of the data model as a type expression.
\<close>

definition ConversationBuffer_model :: ts_type where
  "ConversationBuffer_model = TObject
     [(''buffer'', TArray Turn_model), (''summary'', TNullable TString)]"

text \<open>
  Modelled from the spec: \<open>UserProfile\<close> of the data model as a type expression.
\<close>

definition UserProfile_model :: ts_type where
  "UserProfile_model = TObject
     [(''preferences'', TRecord TAny), (''behavior_patterns'', TRecord TAny),
      (''context'', TRecord TAny), (''last_updated'', TString)]"

text \<open>
  Modelled from the spec: \<open>SemanticRecord\<close> of the data model as a type expression.
\<close>

definition SemanticRecord_model :: ts_type where
  "SemanticRecord_model = TObject
     [(''content'', TString), (''metadata'', TRecord TAny), (''embedding'', TArray TNumber)]"

text \<open>
  Modelled from the spec: \<open>Correction\<close> of the data model as a type expression.
\<close>

definition Correction_model :: ts_type where
  "Correction_model = TObject
     [(''trigger_excerpt'', TString), (''correction_text'', TString), (''created_at'', TString)]"

text \<open>
  Modelled from the spec: \<open>TokenUsage\<close> of the data model as a type expression.
\<close>

definition TokenUsage_model :: ts_type where
  "TokenUsage_model = TObject
     [(''total'', TNumber), (''estimated_response'', TNumber), (''cost'', TNumber),
      (''breakdown'', TRecord TNumber)]"

text \<open>
  Modelled from the spec: \<open>RequestTrace\<close> of the data model as a type expression.
\<close>

definition RequestTrace_model :: ts_type where
  "RequestTrace_model = TObject
     [(''steps'', TArray (TObject [(''name'', TString), (''latency_ms'', TNumber)])),
      (''total_latency_ms'', TNumber)]"

subsection \<open>ShortTermStore\<close>

text \<open>
  Modelled from the spec: what the store keeps for a conversation that exists: the live
  buffer with its summary, and the accumulated folded-token count, the tokens of all
  turns folded into the summary so far, on which the choice of the compaction depends.
\<close>

record StoredConversation =
  live :: ConversationBuffer
  folded_tokens :: nat

text \<open>
  Modelled from the spec: the store holds one entry per conversation that exists.
\<close>

type_synonym ShortTermStore = "conversation_id \<rightharpoonup> StoredConversation"



text \<open>
  Modelled from the spec: the token count of a list of turns, from their
  \<open>token_count\<close>.
\<close>

definition turns_tokens :: "Turn list \<Rightarrow> nat" where
  "turns_tokens ts = sum_list (map token_count ts)"






subsection \<open>LongTermProfileStore\<close>


text \<open>
  Modelled from the spec: the profile store holds one profile per user that has one.
\<close>

type_synonym ProfileStore = "user_id \<rightharpoonup> UserProfile"






subsection \<open>SemanticRetriever\<close>

text \<open>
  Modelled from the spec: a row of the vector index. Retrieval is scoped to a user and
  breaks ties by \<open>created_at\<close>, so a row holds the owner and the creation time next
  to the record.
\<close>

record IndexEntry =
  owner :: user_id
  created_at :: nat
  item :: SemanticRecord

text \<open>
  Modelled from the spec: the vector index, the rows in insertion order.
\<close>

type_synonym VectorIndex = "IndexEntry list"

text \<open>
  Modelled from the spec: \<open>index(user_id, content, metadata)\<close> embeds the content,
  by the external embedding capability, and inserts a record.
\<close>

definition index_record ::
  "(jsstring \<Rightarrow> real list) \<Rightarrow> nat \<Rightarrow> VectorIndex \<Rightarrow> user_id \<Rightarrow> jsstring \<Rightarrow> json js_record
     \<Rightarrow> VectorIndex" where
  "index_record embed_text now idx u text md =
     idx @ [\<lparr>owner = u, created_at = now,
             item = \<lparr>content = text, metadata = md, embedding = embed_text text\<rparr>\<rparr>]"

text \<open>
  Modelled from the spec: results are ordered by descending similarity, ties broken by
  recency (\<open>created_at\<close> descending). \<open>outranks a b\<close> says that the scored row
  \<open>a\<close> may stand before \<open>b\<close>.
\<close>

definition outranks :: "real \<times> IndexEntry \<Rightarrow> real \<times> IndexEntry \<Rightarrow> bool" where
  "outranks a b \<longleftrightarrow>
     fst b < fst a \<or>
     (fst a = fst b \<and> IndexEntry.created_at (snd b) \<le> IndexEntry.created_at (snd a))"

text \<open>
  Modelled from the spec: insertion of one scored row into a ranked list.
\<close>

fun insert_ranked ::
  "real \<times> IndexEntry \<Rightarrow> (real \<times> IndexEntry) list \<Rightarrow> (real \<times> IndexEntry) list" where
  "insert_ranked x [] = [x]"
| "insert_ranked x (y # ys) =
     (if outranks x y then x # y # ys else y # insert_ranked x ys)"

text \<open>
  Modelled from the spec: the ranking of scored rows, by insertion.
\<close>

fun rank :: "(real \<times> IndexEntry) list \<Rightarrow> (real \<times> IndexEntry) list" where
  "rank [] = []"
| "rank (x # xs) = insert_ranked x (rank xs)"

text \<open>
  Modelled from the spec: \<open>VectorIndex.query(user_id, vector, top_k)\<close>, the
  nearest-neighbour search scoped to the user: the user's rows, scored against the
  query vector by the index's similarity measure (a parameter), ranked, the first
  \<open>top_k\<close> of them.
\<close>

definition nearest ::
  "(real list \<Rightarrow> real list \<Rightarrow> real) \<Rightarrow> VectorIndex \<Rightarrow> user_id \<Rightarrow> real list \<Rightarrow> nat
     \<Rightarrow> (real \<times> IndexEntry) list" where
  "nearest similarity idx u v top_k =
     take top_k
       (rank (map (\<lambda>e. (similarity v (embedding (item e)), e))
                (filter (\<lambda>e. owner e = u) idx)))"

text \<open>
  Modelled from the spec: \<open>query\<close> embeds the query, searches, and drops the results
  below \<open>similarity_threshold\<close>. This is \<open>query\<close> with the similarity kept next
  to each row.
\<close>

definition query_scored ::
  "(jsstring \<Rightarrow> real list) \<Rightarrow> (real list \<Rightarrow> real list \<Rightarrow> real) \<Rightarrow> VectorIndex \<Rightarrow> user_id \<Rightarrow>
     jsstring \<Rightarrow> nat \<Rightarrow> real \<Rightarrow> (real \<times> IndexEntry) list" where
  "query_scored embed_text similarity idx u query_text top_k similarity_threshold =
     filter (\<lambda>r. similarity_threshold \<le> fst r)
       (nearest similarity idx u (embed_text query_text) top_k)"

text \<open>
  Modelled from the spec: \<open>query(user_id, query_text, top_k, similarity_threshold)\<close>,
  the ordered sequence of records.
\<close>

definition query ::
  "(jsstring \<Rightarrow> real list) \<Rightarrow> (real list \<Rightarrow> real list \<Rightarrow> real) \<Rightarrow> VectorIndex \<Rightarrow> user_id \<Rightarrow>
     jsstring \<Rightarrow> nat \<Rightarrow> real \<Rightarrow> SemanticRecord list" where
  "query embed_text similarity idx u query_text top_k similarity_threshold =
     map (\<lambda>r. item (snd r))
       (query_scored embed_text similarity idx u query_text top_k similarity_threshold)"

text \<open>
  Modelled from the spec: the default \<open>similarity_threshold\<close>, 0.7.
\<close>

definition default_similarity_threshold :: real where
  "default_similarity_threshold = 7 / 10"

subsection \<open>FeedbackStore\<close>

text \<open>
  Modelled from the spec: the corrections stored for each user, oldest first.
\<close>

type_synonym FeedbackStore = "user_id \<Rightarrow> Correction list"

text \<open>
  Modelled from the spec: the explicit correction marker is a fixed textual prefix. Its
  text is the one the dashboard tells the user to type (\<open>Use "Incorrect:" to seed\<close>).
\<close>

definition correction_marker :: jsstring where
  "correction_marker = js ''Incorrect:''"

text \<open>
  Modelled from the spec: \<open>detect_and_store(user_id, turn_text)\<close> recognizes the
  marker at the start of the turn and, if present, extracts the payload and stores it;
  it returns null if there is no marker. The payload is the remainder of the turn,
  trimmed; the excerpt recorded as the trigger is the turn itself.
\<close>

definition detect_and_store ::
  "nat \<Rightarrow> FeedbackStore \<Rightarrow> user_id \<Rightarrow> jsstring \<Rightarrow> Correction option \<times> FeedbackStore" where
  "detect_and_store now store u turn_text =
     (if take (length correction_marker) turn_text = correction_marker
      then
        let c = \<lparr>trigger_excerpt = turn_text,
                 correction_text = trim (drop (length correction_marker) turn_text),
                 created_at = now\<rparr>
        in (Some c, store(u := store u @ [c]))
      else (None, store))"


subsection \<open>ObservabilityRecorder\<close>

text \<open>
  Modelled from the spec: the state of the \<open>ObservabilityRecorder\<close>: the reading of
  its monotonic clock, the steps that are started and not yet ended with their start
  times, and the trace so far.
\<close>

record Recorder =
  clock_ms :: int
  started :: "jsstring \<rightharpoonup> int"
  trace :: RequestTrace

text \<open>
  Modelled from the spec: what happens to a recorder: \<open>start(step_name)\<close>,
  \<open>end(step_name)\<close>, and time passing, by a number of milliseconds that cannot be
  negative.
\<close>

datatype recorder_event = Start jsstring | End jsstring | Elapse nat

text \<open>
  Modelled from the spec: the recorder at the start of a request.
\<close>

definition new_recorder :: Recorder where
  "new_recorder =
     \<lparr>clock_ms = 0, started = Map.empty, trace = \<lparr>steps = [], total_latency_ms = 0\<rparr>\<rparr>"

text \<open>
  Modelled from the spec: \<open>start\<close> notes the time; \<open>end\<close> pushes the latency of
  the step onto \<open>RequestTrace.steps\<close> and accumulates it into the total. Of the two
  definitions of \<open>total_latency_ms\<close> the spec allows, this is the sum of the recorded
  steps. An \<open>end\<close> without a \<open>start\<close> records nothing.
\<close>

fun record_event :: "Recorder \<Rightarrow> recorder_event \<Rightarrow> Recorder" where
  "record_event r (Elapse d) = r\<lparr>clock_ms := clock_ms r + int d\<rparr>"
| "record_event r (Start n) = r\<lparr>started := (started r)(n \<mapsto> clock_ms r)\<rparr>"
| "record_event r (End n) =
     (case started r n of
        None \<Rightarrow> r
      | Some t0 \<Rightarrow>
          r\<lparr>started := (started r)(n := None),
            trace := \<lparr>steps = steps (trace r) @ [\<lparr>name = n, latency_ms = clock_ms r - t0\<rparr>],
                      total_latency_ms = total_latency_ms (trace r) + (clock_ms r - t0)\<rparr>\<rparr>)"

text \<open>
  The invariant of a recorder: no started step lies in the future, no recorded latency is
  negative, and the total is the sum of the recorded latencies.
\<close>

definition recorder_ok :: "Recorder \<Rightarrow> bool" where
  "recorder_ok r \<longleftrightarrow>
     (\<forall>n t0. started r n = Some t0 \<longrightarrow> t0 \<le> clock_ms r) \<and>
     list_all (\<lambda>s. 0 \<le> latency_ms s) (steps (trace r)) \<and>
     total_latency_ms (trace r) = sum_list (map latency_ms (steps (trace r)))"

text \<open>
  Modelled from the spec: \<open>snapshot()\<close> returns the trace recorded so far.
\<close>

definition snapshot_trace :: "Recorder \<Rightarrow> RequestTrace" where
  "snapshot_trace r = trace r"

text \<open>
  Modelled from the spec: the recorder after a sequence of events of one request.
\<close>

definition run_recorder :: "recorder_event list \<Rightarrow> Recorder" where
  "run_recorder evs = foldl record_event new_recorder evs"


subsection \<open>PromptAssembler\<close>

text \<open>
  Modelled from the spec: the two failures of the error taxonomy that are fatal to a
  request.
\<close>

datatype failure = ValidationFailure | BudgetExhaustionFailure

text \<open>
  Modelled from the spec: the assembled prompt, by component: the corrections (hard
  constraints), the current user turn, the short-term turns and rolling summary, the
  long-term profile summary, and the semantic matches.
\<close>

record Prompt =
  corrections :: "Correction list"
  current_turn :: jsstring
  short_term :: "Turn list"
  rolling_summary :: "jsstring option"
  profile_summary :: "jsstring option"
  semantic_matches :: "SemanticRecord list"

text \<open>
  Modelled from the spec: the token count of a list of corrections, by the token counter
  \<open>count\<close> (\<open>TokenCounter.count\<close> at the configured model, a parameter).
\<close>

definition corrections_tokens :: "(jsstring \<Rightarrow> nat) \<Rightarrow> Correction list \<Rightarrow> nat" where
  "corrections_tokens count cs = sum_list (map (\<lambda>c. count (correction_text c)) cs)"

text \<open>
  Modelled from the spec: the token count of a list of semantic matches.
\<close>

definition matches_tokens :: "(jsstring \<Rightarrow> nat) \<Rightarrow> SemanticRecord list \<Rightarrow> nat" where
  "matches_tokens count rs = sum_list (map (\<lambda>r. count (content r)) rs)"

text \<open>
  Modelled from the spec: the token count of an optional text.
\<close>

definition text_tokens :: "(jsstring \<Rightarrow> nat) \<Rightarrow> jsstring option \<Rightarrow> nat" where
  "text_tokens count t = (case t of None \<Rightarrow> 0 | Some x \<Rightarrow> count x)"

text \<open>
  Modelled from the spec: the total token count of a prompt, the sum over its components
  (the \<open>breakdown\<close> of \<open>TokenUsage\<close>).
\<close>

definition prompt_tokens :: "(jsstring \<Rightarrow> nat) \<Rightarrow> Prompt \<Rightarrow> nat" where
  "prompt_tokens count p =
     corrections_tokens count (corrections p) + count (current_turn p) +
     turns_tokens (short_term p) + text_tokens count (rolling_summary p) +
     text_tokens count (profile_summary p) + matches_tokens count (semantic_matches p)"

text \<open>
  Modelled from the spec: corrections are always included up to a cap, the oldest
  corrections dropped first if the cap is exceeded. The cap is a number of tokens; the
  list is oldest first.
\<close>

fun cap_corrections :: "(jsstring \<Rightarrow> nat) \<Rightarrow> nat \<Rightarrow> Correction list \<Rightarrow> Correction list" where
  "cap_corrections count cap [] = []"
| "cap_corrections count cap (c # cs) =
     (if corrections_tokens count (c # cs) \<le> cap then c # cs
      else cap_corrections count cap cs)"

text \<open>
  Modelled from the spec: the short-term window comes first in the remaining budget, the
  most recent turns: the oldest turns are left out until the rest fits.
\<close>

fun fit_recent :: "nat \<Rightarrow> Turn list \<Rightarrow> Turn list" where
  "fit_recent budget [] = []"
| "fit_recent budget (t # ts) =
     (if turns_tokens (t # ts) \<le> budget then t # ts else fit_recent budget ts)"

text \<open>
  Modelled from the spec: an optional text (the rolling summary, the profile summary) is
  included when it fits the remaining budget and left out otherwise.
\<close>

definition fit_text :: "(jsstring \<Rightarrow> nat) \<Rightarrow> nat \<Rightarrow> jsstring option \<Rightarrow> jsstring option" where
  "fit_text count budget t =
     (case t of None \<Rightarrow> None | Some x \<Rightarrow> if count x \<le> budget then Some x else None)"

text \<open>
  Modelled from the spec: semantic matches fill whatever budget remains, the
  lowest-ranked matches truncated first.
\<close>

fun fit_ranked :: "(jsstring \<Rightarrow> nat) \<Rightarrow> nat \<Rightarrow> SemanticRecord list \<Rightarrow> SemanticRecord list" where
  "fit_ranked count budget [] = []"
| "fit_ranked count budget (r # rs) =
     (if count (content r) \<le> budget
      then r # fit_ranked count (budget - count (content r)) rs
      else [])"

text \<open>
  Modelled from the spec: the budget allocation algorithm. Given
  \<open>MAX_CONTEXT_WINDOW\<close> tokens it reserves the floor for the corrections, up to the
  cap, and for the current user turn; when the floor does not fit it fails with
  \<open>BudgetExhaustionFailure\<close>; otherwise it allocates the remaining budget in the
  fixed priority order short-term, long-term profile, semantic matches.
\<close>

definition allocate ::
  "nat \<Rightarrow> nat \<Rightarrow> (jsstring \<Rightarrow> nat) \<Rightarrow> Correction list \<Rightarrow> jsstring \<Rightarrow> ConversationBuffer \<Rightarrow>
     jsstring option \<Rightarrow> SemanticRecord list \<Rightarrow> failure + Prompt" where
  "allocate max_context_window corrections_cap count active turn_text buf profile matches =
     (let kept = cap_corrections count corrections_cap active;
          reserved = corrections_tokens count kept + count turn_text
      in if max_context_window < reserved then Inl BudgetExhaustionFailure
         else
           let b1 = max_context_window - reserved;
               turns = fit_recent b1 (buffer buf);
               b2 = b1 - turns_tokens turns;
               summ = fit_text count b2 (summary buf);
               b3 = b2 - text_tokens count summ;
               prof = fit_text count b3 profile;
               b4 = b3 - text_tokens count prof;
               sem = fit_ranked count b4 matches
           in Inr \<lparr>corrections = kept, current_turn = turn_text, short_term = turns,
                   rolling_summary = summ, profile_summary = prof, semantic_matches = sem\<rparr>)"


subsection \<open>Orchestrator\<close>


text \<open>
  Modelled from the spec: the configuration: the context window, the cap of the
  corrections floor, the maximal number of live turns \<open>N\<close>, the summarization
  threshold and the size cap of the summary, \<open>top_k\<close> and the similarity threshold,
  the retry cap for transient failures, and \<open>max_tokens\<close> for the response. The
  README lists \<open>MAX_CONTEXT_WINDOW\<close> (4096), \<open>SUMMARIZATION_THRESHOLD_TOKENS\<close>
  (2000) and \<open>SEMANTIC_SIMILARITY_THRESHOLD\<close> (0.7) among the environment variables.
\<close>

record Config =
  MAX_CONTEXT_WINDOW :: nat
  CORRECTIONS_CAP :: nat
  max_turns :: nat
  SUMMARIZATION_THRESHOLD_TOKENS :: nat
  SUMMARY_CAP :: nat
  top_k :: nat
  similarity_threshold :: real
  MAX_RETRIES :: nat
  max_tokens :: nat

text \<open>
  Modelled from the spec: the context object that owns the four stores.
\<close>

record Engine =
  short_term_store :: ShortTermStore
  profile_store :: ProfileStore
  vector_index :: VectorIndex
  feedback_store :: FeedbackStore

text \<open>
  Modelled from the spec: the states of the orchestrator's state machine.
\<close>

datatype stage =
    RECEIVED | SHORT_TERM_FETCHED | LONG_TERM_FETCHED | SEMANTIC_FETCHED | FEEDBACK_FETCHED
  | BUDGET_ALLOCATED | ASSEMBLED | MODEL_INVOKED | PERSISTED | COMPLETE | FAILED


text \<open>
  Modelled from the spec: the calls of external capabilities that the orchestrator itself
  issues for a request, one entry per attempt.
\<close>

datatype external_call = Embed_call nat | Complete_call | Extract_call

text \<open>
  Modelled from the spec: what \<open>handle_turn\<close> returns on success: the response text,
  the conversation id and the observability trace.
\<close>

record Reply =
  response_text :: jsstring
  updated_conversation_id :: conversation_id
  observability :: ObservabilityTrace

text \<open>
  Modelled from the spec: everything a call of \<open>handle_turn\<close> leaves behind: the
  failure or the reply, the engine afterwards, the states the request went through, the
  external calls it issued, and the request trace, which is finalized and returned
  whether the request succeeds or fails.
\<close>

record Outcome =
  result :: "failure + Reply"
  engine_after :: Engine
  path :: "stage list"
  external_calls :: "external_call list"
  final_trace :: RequestTrace








section \<open>Sample values\<close>

text \<open>Concrete inputs on which the properties below are instantiated.\<close>

definition example_data :: ObservabilityData where
  "example_data =
     \<lparr>request_id = js ''0f8fad5b-d9cb-469f-a165-70867728950e'',
      short_term_memory = \<lparr>ObsShortTerm.messages = [], summary = None\<rparr>,
      long_term_memory = \<lparr>ObsLongTerm.preferences = [], behavior_patterns = [], context' = [],
        last_updated = js ''2024-01-01T00:00:00''\<rparr>,
      semantic_memory = \<lparr>relevant_memories = []\<rparr>,
      feedback_memory = \<lparr>ObsFeedback.corrections = []\<rparr>,
      token_usage = \<lparr>ObsTokenUsage.total = 150, estimated_response = 500, cost = 3 / 10000,
        breakdown = [(js ''system_prompt'', 30), (js ''short_term_memory'', 120),
                     (js ''semantic_memory'', 0), (js ''feedback'', - 1)]\<rparr>,
      request_trace = \<lparr>ObsTrace.steps = [\<lparr>ObsStep.name = js ''llm_call'', latency_ms = 812\<rparr>],
        total_latency_ms = 812\<rparr>\<rparr>"

definition example_response :: ChatMessageResponse where
  "example_response =
     \<lparr>response = js ''Hi Alice'', conversation_id = js ''c1'', message_id = js ''m2'',
      observability = example_data\<rparr>"

definition example_clock :: clock where
  "example_clock =
     \<lparr>now_start = js ''1700000000000'', iso_start = js ''2023-11-14T22:13:20.000Z'',
      now_catch = js ''1700000000950'', iso_reply = js ''2023-11-14T22:13:20.950Z''\<rparr>"

definition initial_state :: App_state where
  "initial_state =
     \<lparr>messages = [], conversationId = None, isLoading = False, observability = None,
      activeTab = chat\<rparr>"

definition old_correction :: Correction where
  "old_correction = \<lparr>trigger_excerpt = js ''Incorrect: I live in Paris.'',
     correction_text = js ''I live in Paris.'', created_at = 1\<rparr>"

definition new_correction :: Correction where
  "new_correction = \<lparr>trigger_excerpt = js ''Incorrect: My name is Alice.'',
     correction_text = js ''My name is Alice.'', created_at = 2\<rparr>"

definition earlier_turn :: Turn where
  "earlier_turn = \<lparr>id' = js ''t1'', role = user, content = js ''Where do I live?'',
     token_count = 30, created_at = 3, included_in_prompt = False\<rparr>"

definition later_turn :: Turn where
  "later_turn = \<lparr>id' = js ''t2'', role = assistant, content = js ''You live in Paris.'',
     token_count = 20, created_at = 4, included_in_prompt = False\<rparr>"

definition example_buffer :: ConversationBuffer where
  "example_buffer = \<lparr>buffer = [earlier_turn, later_turn], summary = Some (js ''earlier talk'')\<rparr>"

definition climate_record :: SemanticRecord where
  "climate_record = \<lparr>content = js ''climate change'', metadata = [], embedding = [1]\<rparr>"

definition weather_record :: SemanticRecord where
  "weather_record = \<lparr>content = js ''the weather'', metadata = [], embedding = [1 / 2]\<rparr>"

definition capped_prompt :: Prompt where
  "capped_prompt = \<lparr>corrections = [new_correction], current_turn = js ''Who am I?'',
     short_term = [earlier_turn, later_turn], rolling_summary = Some (js ''earlier talk''),
     profile_summary = Some (js ''name: Alice''),
     semantic_matches = [climate_record, weather_record]\<rparr>"

definition full_prompt :: Prompt where
  "full_prompt = \<lparr>corrections = [old_correction, new_correction],
     current_turn = js ''Who am I?'',
     short_term = [earlier_turn, later_turn], rolling_summary = Some (js ''earlier talk''),
     profile_summary = Some (js ''name: Alice''), semantic_matches = [climate_record]\<rparr>"

definition dot :: "real list \<Rightarrow> real list \<Rightarrow> real" where
  "dot v w = sum_list (map (\<lambda>(x, y). x * y) (zip v w))"







definition index_entry :: "string \<Rightarrow> nat \<Rightarrow> real \<Rightarrow> IndexEntry" where
  "index_entry u t s =
     \<lparr>owner = js u, created_at = t,
      item = \<lparr>content = js ''climate change'', metadata = [], embedding = [s]\<rparr>\<rparr>"

definition example_index :: VectorIndex where
  "example_index =
     [index_entry ''alice'' 1 (8 / 10), index_entry ''alice'' 2 (9 / 10),
      index_entry ''bob'' 3 (95 / 100), index_entry ''alice'' 4 (8 / 10),
      index_entry ''alice'' 5 (5 / 10)]"

definition example_events :: "recorder_event list" where
  "example_events =
     [Start (js ''short_term''), Elapse 5, Start (js ''llm_call''), Elapse 2,
      End (js ''short_term''), End (js ''semantic''), Elapse 1, End (js ''llm_call'')]"

section \<open>Properties of trimming\<close>



section \<open>Properties of ChatWindow\<close>

text \<open>
  C9. \<open>handleSubmit\<close> calls \<open>onSendMessage\<close> only when the trimmed input is not empty
  and \<open>isLoading\<close> is false; the call receives the input as typed, untrimmed, and the
  input field is the empty string afterwards. In every other case nothing is called and
  the input stays. The submit button is disabled in exactly the cases in which
  \<open>handleSubmit\<close> would call nothing.
\<close>

theorem handleSubmit_sends_iff:
  "snd (handleSubmit loading input) =
      (if trim input \<noteq> [] \<and> \<not> loading then [input] else []) \<and>
   fst (handleSubmit loading input) =
      (if trim input \<noteq> [] \<and> \<not> loading then [] else input) \<and>
   (snd (handleSubmit loading input) \<noteq> [] \<longleftrightarrow> trim input \<noteq> [] \<and> \<not> loading) \<and>
   (submit_disabled loading input \<longleftrightarrow> snd (handleSubmit loading input) = [])"
  by (simp add: handleSubmit_def submit_disabled_def js_def)

theorem handleSubmit_sends_iff_witness:
  "handleSubmit False (js '' hi '') = ([], [js '' hi '']) \<and>
   \<not> submit_disabled False (js '' hi '') \<and>
   handleSubmit False (js ''  '') = (js ''  '', []) \<and>
   submit_disabled False (js ''  '') \<and>
   handleSubmit True (js '' hi '') = (js '' hi '', []) \<and>
   submit_disabled True (js '' hi '')"
proof -
  have t1: "trim (js '' hi '') \<noteq> []"
    by (simp add: trim_def js_def isWhiteSpace_def)
  have t2: "trim (js ''  '') = []"
    by (simp add: trim_def js_def isWhiteSpace_def)
  show ?thesis
    using handleSubmit_sends_iff [of False "js '' hi ''"]
      handleSubmit_sends_iff [of False "js ''  ''"]
      handleSubmit_sends_iff [of True "js '' hi ''"] t1 t2
    by (simp add: prod_eq_iff)
qed

section \<open>Properties of MemoryDashboard\<close>

lemma length_capitalize_from: "length (capitalize_from prev s) = length s"
  by (induction s arbitrary: prev) simp_all

lemma nth_capitalize_from:
  "i < length s \<Longrightarrow>
   capitalize_from prev s ! i =
     (if isWordChar (s ! i) \<and> \<not> (if i = 0 then prev else isWordChar (s ! (i - 1)))
      then toUpperCase (s ! i) else s ! i)"
proof (induction s arbitrary: prev i)
  case Nil
  then show ?case by simp
next
  case (Cons c cs)
  show ?case
  proof (cases i)
    case 0
    then show ?thesis by simp
  next
    case (Suc j)
    with Cons.prems have "j < length cs" by simp
    from Cons.IH [OF this, of "isWordChar c"] Suc show ?thesis
      by (cases j) simp_all
  qed
qed

lemma isWordChar_underscore: "isWordChar 0x5F" and not_isWordChar_space: "\<not> isWordChar 0x20"
  by (simp_all add: isWordChar_def)

text \<open>
  C10. For a non-null \<open>data\<close>, the chart's dataset \<open>tokenData\<close> holds exactly the
  entries of \<open>token_usage.breakdown\<close> whose value is greater than zero, in their order,
  each under its display name. The display name has the length of the name; every
  underscore has become a space, and every word character that starts the name or follows
  an underscore or a character that is not a word character is upper-cased; all other
  characters stay. For a null \<open>data\<close> the component renders the standby placeholder,
  which holds none of the content; for a non-null one it renders the dashboard whose
  chart is \<open>tokenData\<close>.
\<close>

theorem tokenData_positive_entries:
  "tokenData data =
     map (\<lambda>(n, v). (display_name n, v)) (filter (\<lambda>(n, v). v > 0) (ObsTokenUsage.breakdown (ObservabilityData.token_usage data))) \<and>
   length (display_name n) = length n \<and>
   (\<forall>i < length n. display_name n ! i =
      (if n ! i = 0x5F then 0x20
       else if isWordChar (n ! i) \<and> (i = 0 \<or> n ! (i - 1) = 0x5F \<or> \<not> isWordChar (n ! (i - 1)))
       then toUpperCase (n ! i) else n ! i)) \<and>
   MemoryDashboard None = Standby \<and>
   (\<exists>c. MemoryDashboard (Some data) = Dashboard c \<and> chart c = tokenData data)"
proof -
  have a: "tokenData data =
     map (\<lambda>(n, v). (display_name n, v)) (filter (\<lambda>(n, v). v > 0) (ObsTokenUsage.breakdown (ObservabilityData.token_usage data)))"
    by (simp add: tokenData_def filter_map comp_def case_prod_unfold)
  have b: "length (display_name n) = length n"
    by (simp add: display_name_def capitalize_words_def replace_underscores_def length_capitalize_from)
  have c: "display_name n ! i =
      (if n ! i = 0x5F then 0x20
       else if isWordChar (n ! i) \<and> (i = 0 \<or> n ! (i - 1) = 0x5F \<or> \<not> isWordChar (n ! (i - 1)))
       then toUpperCase (n ! i) else n ! i)" if "i < length n" for i
  proof -
    from that have "i - 1 < length n" by simp
    with that show ?thesis
      by (auto simp add: display_name_def capitalize_words_def replace_underscores_def
          nth_capitalize_from isWordChar_underscore not_isWordChar_space)
  qed
  have d: "MemoryDashboard None = Standby"
    by (simp add: MemoryDashboard_def)
  have e: "\<exists>c. MemoryDashboard (Some data) = Dashboard c \<and> chart c = tokenData data"
    by (simp add: MemoryDashboard_def)
  from a b c d e show ?thesis by blast
qed

theorem tokenData_positive_entries_witness:
  "tokenData example_data = [(js ''System Prompt'', 30), (js ''Short Term Memory'', 120)] \<and>
   display_name (js ''a_b'') ! 2 = 0x42"
proof -
  note inst = tokenData_positive_entries [of example_data "js ''a_b''"]
  have dn: "display_name (js ''system_prompt'') = js ''System Prompt''"
    "display_name (js ''short_term_memory'') = js ''Short Term Memory''"
    by (simp_all add: display_name_def capitalize_words_def replace_underscores_def js_def
        isWordChar_def toUpperCase_def)
  from inst have "tokenData example_data =
     map (\<lambda>(n, v). (display_name n, v))
       (filter (\<lambda>(n, v). v > 0)
         (ObsTokenUsage.breakdown (ObservabilityData.token_usage example_data)))"
    by (rule conjunct1)
  then have one: "tokenData example_data =
      [(js ''System Prompt'', 30), (js ''Short Term Memory'', 120)]"
    by (simp add: example_data_def dn)
  from inst have "\<forall>i < length (js ''a_b''). display_name (js ''a_b'') ! i =
      (if js ''a_b'' ! i = 0x5F then 0x20
       else if isWordChar (js ''a_b'' ! i) \<and>
            (i = 0 \<or> js ''a_b'' ! (i - 1) = 0x5F \<or> \<not> isWordChar (js ''a_b'' ! (i - 1)))
       then toUpperCase (js ''a_b'' ! i) else js ''a_b'' ! i)"
    by blast
  then have "2 < length (js ''a_b'') \<longrightarrow> display_name (js ''a_b'') ! 2 =
      (if js ''a_b'' ! 2 = 0x5F then 0x20
       else if isWordChar (js ''a_b'' ! 2) \<and>
            ((2::nat) = 0 \<or> js ''a_b'' ! (2 - 1) = 0x5F \<or> \<not> isWordChar (js ''a_b'' ! (2 - 1)))
       then toUpperCase (js ''a_b'' ! 2) else js ''a_b'' ! 2)"
    by (rule spec)
  then have two: "display_name (js ''a_b'') ! 2 = 0x42"
    by (simp add: js_def isWordChar_def toUpperCase_def)
  from one two show ?thesis by (rule conjI)
qed

section \<open>Properties of handleSendMessage\<close>

text \<open>
  C8. When the text is not blank, so that \<open>chatApi.sendMessage\<close> is called, and the
  call rejects: \<open>conversationId\<close> and \<open>observability\<close> are as before; the message
  list is the previous list followed by the user message and then by exactly one
  assistant message with the fixed apology as its content; and \<open>isLoading\<close> is false
  at the end. It is false at the end of a call that resolves, too.
\<close>

theorem handleSendMessage_failure:
  "trim text \<noteq> [] \<Longrightarrow>
   conversationId (fst (handleSendMessage clk Rejected st text)) = conversationId st \<and>
   App_state.observability (fst (handleSendMessage clk Rejected st text)) =
     App_state.observability st \<and>
   messages (fst (handleSendMessage clk Rejected st text)) =
     messages st @ [userMessage clk text, errorMessage clk] \<and>
   Message.content (userMessage clk text) = text \<and>
   Message.role (userMessage clk text) = user \<and>
   Message.role (errorMessage clk) = assistant \<and>
   Message.content (errorMessage clk) = js ''Sorry, something went wrong. Please try again.'' \<and>
   \<not> isLoading (fst (handleSendMessage clk Rejected st text)) \<and>
   \<not> isLoading (fst (handleSendMessage clk (Resolved r) st text))"
  by (simp add: handleSendMessage_def Let_def userMessage_def errorMessage_def
      split: option.split)

theorem handleSendMessage_failure_witness:
  "trim (js ''Hello'') \<noteq> [] \<and>
   fst (handleSendMessage example_clock Rejected initial_state (js ''Hello'')) =
     initial_state\<lparr>messages :=
       [userMessage example_clock (js ''Hello''), errorMessage example_clock]\<rparr>"
proof -
  have ne: "trim (js ''Hello'') \<noteq> []"
    by (simp add: trim_def js_def isWhiteSpace_def)
  from handleSendMessage_failure [OF ne, of example_clock initial_state None]
  have "fst (handleSendMessage example_clock Rejected initial_state (js ''Hello'')) =
     initial_state\<lparr>messages :=
       [userMessage example_clock (js ''Hello''), errorMessage example_clock]\<rparr>"
    by (simp add: initial_state_def App_state.equality handleSendMessage_def ne)
  with ne show ?thesis by (rule conjI)
qed

section \<open>Properties of the interface declaration\<close>

text \<open>
  C1 (as amended). The observability structure that is returned for a turn, the
  \<open>observability\<close> member of the chat response, which \<open>App\<close> hands unchanged to
  the dashboard, and that the visualization layer consumes, consists, field for field,
  of exactly seven fields: \<open>request_id\<close>, a string, and the six fields
  \<open>short_term_memory\<close>, \<open>long_term_memory\<close>, \<open>semantic_memory\<close>,
  \<open>feedback_memory\<close>, \<open>token_usage\<close> and \<open>request_trace\<close>. Of these,
  \<open>long_term_memory\<close>, \<open>token_usage\<close> and \<open>request_trace\<close> are shaped as the
  data model defines \<open>UserProfile\<close>, \<open>TokenUsage\<close> and \<open>RequestTrace\<close>; in
  particular \<open>token_usage\<close> carries \<open>total\<close>, \<open>estimated_response\<close>,
  \<open>cost\<close> and a per-component \<open>breakdown\<close>. \<open>short_term_memory\<close> carries
  \<open>messages\<close> and \<open>summary\<close>; every short-term message is shaped as the data
  model's \<open>Turn\<close> with \<open>token_count\<close> under the name \<open>tokens\<close>,
  \<open>created_at\<close> under the name \<open>timestamp\<close> and the boolean
  \<open>included_in_prompt\<close> under the name \<open>includedInPrompt\<close>.
  \<open>semantic_memory\<close> carries \<open>relevant_memories\<close>, each shaped as the data
  model's \<open>SemanticRecord\<close> without its embedding, and \<open>feedback_memory\<close> carries
  \<open>corrections\<close>, an array of untyped values.
\<close>

theorem ObservabilityData_fields:
  "ObservabilityData_decl = TObject
     [(''request_id'', TString),
      (''short_term_memory'', TObject
         [(''messages'', TArray
             (rename_members
                [(''token_count'', ''tokens''), (''created_at'', ''timestamp''),
                 (''included_in_prompt'', ''includedInPrompt'')] Turn_model)),
          (''summary'', TNullable TString)]),
      (''long_term_memory'', UserProfile_model),
      (''semantic_memory'', TObject
         [(''relevant_memories'', TArray (drop_member ''embedding'' SemanticRecord_model))]),
      (''feedback_memory'', TObject [(''corrections'', TArray TAny)]),
      (''token_usage'', TokenUsage_model),
      (''request_trace'', RequestTrace_model)] \<and>
   field_names ObservabilityData_decl =
     [''request_id'', ''short_term_memory'', ''long_term_memory'', ''semantic_memory'',
      ''feedback_memory'', ''token_usage'', ''request_trace''] \<and>
   field_type ObservabilityData_decl ''request_id'' = Some TString \<and>
   element (member_at [''short_term_memory'', ''messages''] ObservabilityData_decl) =
     Some (TObject
       [(''id'', TString), (''role'', TString), (''content'', TString), (''tokens'', TNumber),
        (''timestamp'', TString), (''includedInPrompt'', TBoolean)]) \<and>
   member_at [''short_term_memory'', ''summary''] ObservabilityData_decl =
     Some (TNullable TString) \<and>
   member_at [''token_usage''] ObservabilityData_decl =
     Some (TObject
       [(''total'', TNumber), (''estimated_response'', TNumber), (''cost'', TNumber),
        (''breakdown'', TRecord TNumber)]) \<and>
   field_type ChatMessageResponse_decl ''observability'' = Some ObservabilityData_decl \<and>
   (trim text \<noteq> [] \<longrightarrow>
      App_dashboard (fst (handleSendMessage clk (Resolved (Some r)) st text)) =
        MemoryDashboard (Some (ChatMessageResponse.observability r)))"
  by (simp add: field_names_def field_type_def ObservabilityData_decl_def ObsMessage_decl_def
      ObsTokenUsage_decl_def ChatMessageResponse_decl_def Turn_model_def UserProfile_model_def
      SemanticRecord_model_def TokenUsage_model_def RequestTrace_model_def
      App_dashboard_def handleSendMessage_def Let_def)

theorem ObservabilityData_fields_witness:
  "trim (js ''Hello'') \<noteq> [] \<and>
   App_dashboard
     (fst (handleSendMessage example_clock (Resolved (Some example_response)) initial_state
        (js ''Hello''))) =
     MemoryDashboard (Some example_data)"
proof -
  have ne: "trim (js ''Hello'') \<noteq> []"
    by (simp add: trim_def js_def isWhiteSpace_def)
  from ObservabilityData_fields [of "js ''Hello''" example_clock example_response initial_state] ne
  show ?thesis
    by (simp add: example_response_def)
qed

text \<open>
  C1 as stated fails on the declaration. Its fields are not exactly the six memory and
  accounting fields: \<open>request_id\<close> is declared as well. The fields are not all
  shaped as in the data model: \<open>short_term_memory\<close> has no member \<open>buffer\<close>, a
  short-term message has no members \<open>included_in_prompt\<close>, \<open>token_count\<close> or
  \<open>created_at\<close>, a relevant memory has no \<open>embedding\<close>, and a correction is not
  typed as the data model's \<open>Correction\<close>.
\<close>

theorem ObservabilityData_six_fields_counterexample:
  "field_names ObservabilityData_decl \<noteq>
     [''short_term_memory'', ''long_term_memory'', ''semantic_memory'',
      ''feedback_memory'', ''token_usage'', ''request_trace''] \<and>
   field_type ObservabilityData_decl ''request_id'' = Some TString \<and>
   member_at [''short_term_memory'', ''buffer''] ObservabilityData_decl = None \<and>
   element (member_at [''short_term_memory'', ''messages''] ObservabilityData_decl) =
     Some ObsMessage_decl \<and>
   field_type ObsMessage_decl ''included_in_prompt'' = None \<and>
   field_type ObsMessage_decl ''token_count'' = None \<and>
   field_type ObsMessage_decl ''created_at'' = None \<and>
   ObsMessage_decl \<noteq> Turn_model \<and>
   element (member_at [''semantic_memory'', ''relevant_memories''] ObservabilityData_decl) =
     Some (TObject [(''content'', TString), (''metadata'', TRecord TAny)]) \<and>
   field_type SemanticRecord_model ''embedding'' = Some (TArray TNumber) \<and>
   element (member_at [''feedback_memory'', ''corrections''] ObservabilityData_decl) =
     Some TAny \<and>
   TAny \<noteq> Correction_model"
  by (simp add: field_names_def field_type_def ObservabilityData_decl_def ObsMessage_decl_def
      ObsTokenUsage_decl_def Turn_model_def SemanticRecord_model_def Correction_model_def)

section \<open>Properties of the ShortTermStore\<close>







section \<open>Properties of the SemanticRetriever\<close>

lemma outranks_total: "\<not> outranks a b \<Longrightarrow> outranks b a"
  by (auto simp: outranks_def)

lemma outranks_trans: "outranks a b \<Longrightarrow> outranks b c \<Longrightarrow> outranks a c"
  by (auto simp: outranks_def)

lemma set_insert_ranked: "set (insert_ranked x xs) = insert x (set xs)"
  by (induction xs) auto

lemma sorted_insert_ranked:
  "sorted_wrt outranks xs \<Longrightarrow> sorted_wrt outranks (insert_ranked x xs)"
proof (induction xs)
  case Nil
  then show ?case by simp
next
  case (Cons y ys)
  show ?case
  proof (cases "outranks x y")
    case True
    with Cons.prems show ?thesis
      by (auto intro: outranks_trans)
  next
    case False
    then have "outranks y x" by (rule outranks_total)
    with False Cons show ?thesis
      by (auto simp: set_insert_ranked)
  qed
qed

lemma set_rank: "set (rank xs) = set xs"
  by (induction xs) (simp_all add: set_insert_ranked)

lemma length_insert_ranked: "length (insert_ranked x xs) = Suc (length xs)"
  by (induction xs) simp_all

lemma length_rank: "length (rank xs) = length xs"
  by (induction xs) (simp_all add: length_insert_ranked)

lemma sorted_rank: "sorted_wrt outranks (rank xs)"
  by (induction xs) (simp_all add: sorted_insert_ranked)

lemma sorted_wrt_take_filter:
  "sorted_wrt P xs \<Longrightarrow> sorted_wrt P (filter Q (take n xs))"
  by (simp add: sorted_wrt_filter sorted_wrt_take)

lemma set_nearest_subset:
  "r \<in> set (nearest similarity idx u v k) \<Longrightarrow>
     owner (snd r) = u \<and> snd r \<in> set idx \<and> fst r = similarity v (embedding (item (snd r)))"
proof -
  assume "r \<in> set (nearest similarity idx u v k)"
  then have "r \<in> set (rank (map (\<lambda>e. (similarity v (embedding (item e)), e))
                (filter (\<lambda>e. owner e = u) idx)))"
    unfolding nearest_def by (rule in_set_takeD)
  then show ?thesis
    by (auto simp: set_rank)
qed

text \<open>
  C4. Every result of \<open>query\<close> has a similarity to the query at or above the
  threshold, belongs to the user asked for, and is a row of the index; the results are
  ordered by descending similarity, ties by descending \<open>created_at\<close>; there are at
  most \<open>top_k\<close> of them, and when \<open>top_k\<close> is the size of the index they are all
  the rows of the user that reach the threshold. On an index without rows the result is
  empty.
\<close>

theorem query_above_threshold_ranked:
  "list_all (\<lambda>r. thr \<le> fst r \<and> owner (snd r) = u \<and> snd r \<in> set idx \<and>
               fst r = similarity (embed_text q) (embedding (item (snd r))))
     (query_scored embed_text similarity idx u q k thr) \<and>
   sorted_wrt (\<lambda>a b. fst b < fst a \<or>
                 (fst a = fst b \<and> IndexEntry.created_at (snd b) \<le> IndexEntry.created_at (snd a)))
     (query_scored embed_text similarity idx u q k thr) \<and>
   length (query_scored embed_text similarity idx u q k thr) \<le> k \<and>
   set (query_scored embed_text similarity idx u q (length idx) thr) =
     {r. thr \<le> fst r \<and> owner (snd r) = u \<and> snd r \<in> set idx \<and>
         fst r = similarity (embed_text q) (embedding (item (snd r)))} \<and>
   query embed_text similarity idx u q k thr =
     map (\<lambda>r. item (snd r)) (query_scored embed_text similarity idx u q k thr) \<and>
   query embed_text similarity [] u q k thr = []"
proof -
  let ?scored = "map (\<lambda>e. (similarity (embed_text q) (embedding (item e)), e))
                   (filter (\<lambda>e. owner e = u) idx)"
  have a: "list_all (\<lambda>r. thr \<le> fst r \<and> owner (snd r) = u \<and> snd r \<in> set idx \<and>
               fst r = similarity (embed_text q) (embedding (item (snd r))))
     (query_scored embed_text similarity idx u q k thr)"
    unfolding list_all_iff query_scored_def
    using set_nearest_subset [of _ similarity idx u "embed_text q" k] by auto
  have "sorted_wrt outranks (query_scored embed_text similarity idx u q k thr)"
    unfolding query_scored_def nearest_def
    by (rule sorted_wrt_take_filter) (rule sorted_rank)
  then have b: "sorted_wrt (\<lambda>a b. fst b < fst a \<or>
                 (fst a = fst b \<and> IndexEntry.created_at (snd b) \<le> IndexEntry.created_at (snd a)))
     (query_scored embed_text similarity idx u q k thr)"
    by (simp add: outranks_def [abs_def])
  have "length (query_scored embed_text similarity idx u q k thr) \<le>
          length (nearest similarity idx u (embed_text q) k)"
    unfolding query_scored_def by (rule length_filter_le)
  also have "\<dots> \<le> k"
    by (simp add: nearest_def)
  finally have c: "length (query_scored embed_text similarity idx u q k thr) \<le> k" .
  have "length (rank ?scored) \<le> length idx"
    by (simp add: length_rank)
  then have "take (length idx) (rank ?scored) = rank ?scored"
    by simp
  then have d: "set (query_scored embed_text similarity idx u q (length idx) thr) =
     {r. thr \<le> fst r \<and> owner (snd r) = u \<and> snd r \<in> set idx \<and>
         fst r = similarity (embed_text q) (embedding (item (snd r)))}"
    by (auto simp: query_scored_def nearest_def set_rank)
  have e: "query embed_text similarity idx u q k thr =
     map (\<lambda>r. item (snd r)) (query_scored embed_text similarity idx u q k thr)"
    by (simp add: query_def)
  have f: "query embed_text similarity [] u q k thr = []"
    by (simp add: query_def query_scored_def nearest_def)
  from a b c d e f show ?thesis by blast
qed

theorem query_above_threshold_ranked_witness:
  "map (\<lambda>r. (fst r, IndexEntry.created_at (snd r)))
     (query_scored (\<lambda>t. [1]) dot example_index (js ''alice'') (js ''environment'') 3
        default_similarity_threshold) =
     [(9 / 10, 2), (8 / 10, 4), (8 / 10, 1)]"
proof -
  have "query_scored (\<lambda>t. [1]) dot example_index (js ''alice'') (js ''environment'') 3
        default_similarity_threshold =
     [(9 / 10, index_entry ''alice'' 2 (9 / 10)), (8 / 10, index_entry ''alice'' 4 (8 / 10)),
      (8 / 10, index_entry ''alice'' 1 (8 / 10))]"
    by (simp add: query_scored_def nearest_def example_index_def index_entry_def dot_def
        outranks_def default_similarity_threshold_def js_def)
  with query_above_threshold_ranked [of default_similarity_threshold "js ''alice''" example_index
      dot "\<lambda>t. [1]" "js ''environment''" 3]
  show ?thesis
    by (simp add: index_entry_def)
qed

section \<open>Properties of the FeedbackStore\<close>

lemma begins_with_marker:
  "take (length correction_marker) t = correction_marker \<longleftrightarrow> (\<exists>rest. t = js ''Incorrect:'' @ rest)"
proof
  assume "take (length correction_marker) t = correction_marker"
  then have "t = js ''Incorrect:'' @ drop (length correction_marker) t"
    by (metis append_take_drop_id correction_marker_def)
  then show "\<exists>rest. t = js ''Incorrect:'' @ rest" ..
next
  assume "\<exists>rest. t = js ''Incorrect:'' @ rest"
  then show "take (length correction_marker) t = correction_marker"
    by (auto simp: correction_marker_def)
qed

text \<open>
  C5. \<open>detect_and_store\<close> returns a correction exactly when the turn begins with
  \<open>Incorrect:\<close>. The correction then carries the trimmed remainder of the turn as
  its \<open>correction_text\<close> and is stored as the newest correction of the user. When the
  result is null the store is unchanged. On the turn
  \<open>Incorrect: You called me Bob. My name is Alice.\<close> the store gains one correction,
  whose text contains \<open>My name is Alice\<close>.
\<close>

theorem detect_and_store_marker:
  "(fst (detect_and_store now store u t) \<noteq> None \<longleftrightarrow> (\<exists>rest. t = js ''Incorrect:'' @ rest)) \<and>
   (\<forall>rest. t = js ''Incorrect:'' @ rest \<longrightarrow>
      detect_and_store now store u t =
        (Some \<lparr>trigger_excerpt = t, correction_text = trim rest, created_at = now\<rparr>,
         store(u := store u @
           [\<lparr>trigger_excerpt = t, correction_text = trim rest, created_at = now\<rparr>]))) \<and>
   (fst (detect_and_store now store u t) = None \<longrightarrow> snd (detect_and_store now store u t) = store)"
proof -
  have a: "fst (detect_and_store now store u t) \<noteq> None \<longleftrightarrow> (\<exists>rest. t = js ''Incorrect:'' @ rest)"
    unfolding begins_with_marker [symmetric] by (simp add: detect_and_store_def Let_def)
  have b: "detect_and_store now store u t =
        (Some \<lparr>trigger_excerpt = t, correction_text = trim rest, created_at = now\<rparr>,
         store(u := store u @
           [\<lparr>trigger_excerpt = t, correction_text = trim rest, created_at = now\<rparr>]))"
    if "t = js ''Incorrect:'' @ rest" for rest
  proof -
    from that have "take (length correction_marker) t = correction_marker"
      and "drop (length correction_marker) t = rest"
      by (simp_all add: correction_marker_def)
    then show ?thesis
      by (simp add: detect_and_store_def Let_def)
  qed
  have c: "fst (detect_and_store now store u t) = None \<longrightarrow>
      snd (detect_and_store now store u t) = store"
    by (simp add: detect_and_store_def Let_def)
  from a b c show ?thesis by blast
qed

theorem detect_and_store_marker_witness:
  "detect_and_store 7 (\<lambda>u. []) (js ''alice'')
       (js ''Incorrect: You called me Bob. My name is Alice.'') =
     (Some \<lparr>trigger_excerpt = js ''Incorrect: You called me Bob. My name is Alice.'',
            correction_text = js ''You called me Bob. '' @ js ''My name is Alice'' @ js ''.'',
            created_at = 7\<rparr>,
      (\<lambda>u. [])(js ''alice'' :=
        [\<lparr>trigger_excerpt = js ''Incorrect: You called me Bob. My name is Alice.'',
          correction_text = js ''You called me Bob. '' @ js ''My name is Alice'' @ js ''.'',
          created_at = 7\<rparr>])) \<and>
   detect_and_store 7 (\<lambda>u. []) (js ''alice'') (js ''My name is Alice'') = (None, \<lambda>u. [])"
proof -
  let ?t = "js ''Incorrect: You called me Bob. My name is Alice.''"
  let ?rest = "js '' You called me Bob. My name is Alice.''"
  have split: "?t = js ''Incorrect:'' @ ?rest"
    by (simp add: js_def)
  have payload: "trim ?rest = js ''You called me Bob. '' @ js ''My name is Alice'' @ js ''.''"
    by (simp add: trim_def js_def isWhiteSpace_def)
  from detect_and_store_marker [of 7 "\<lambda>u. []" "js ''alice''" ?t] split
  have one: "detect_and_store 7 (\<lambda>u. []) (js ''alice'') ?t =
        (Some \<lparr>trigger_excerpt = ?t, correction_text = trim ?rest, created_at = 7\<rparr>,
         (\<lambda>u. [])(js ''alice'' := [] @
           [\<lparr>trigger_excerpt = ?t, correction_text = trim ?rest, created_at = 7\<rparr>]))"
    by blast
  have no: "\<not> (\<exists>rest. js ''My name is Alice'' = js ''Incorrect:'' @ rest)"
    by (simp add: js_def)
  with detect_and_store_marker [of 7 "\<lambda>u. []" "js ''alice''" "js ''My name is Alice''"]
  have two: "detect_and_store 7 (\<lambda>u. []) (js ''alice'') (js ''My name is Alice'') = (None, \<lambda>u. [])"
    by (simp add: prod_eq_iff)
  from one two show ?thesis
    by (simp only: payload append_Nil simp_thms)
qed

section \<open>Properties of the ObservabilityRecorder\<close>

lemma recorder_ok_new: "recorder_ok new_recorder"
  by (simp add: recorder_ok_def new_recorder_def)

lemma recorder_ok_event: "recorder_ok r \<Longrightarrow> recorder_ok (record_event r ev)"
proof (cases ev)
  case (Start n)
  assume "recorder_ok r"
  with Start show ?thesis by (simp add: recorder_ok_def)
next
  case (End n)
  assume ok: "recorder_ok r"
  show ?thesis
  proof (cases "started r n")
    case None
    with End ok show ?thesis by simp
  next
    case (Some t0)
    with ok have "t0 \<le> clock_ms r" by (simp add: recorder_ok_def)
    with End Some ok show ?thesis by (simp add: recorder_ok_def)
  qed
next
  case (Elapse d)
  assume "recorder_ok r"
  then have "\<And>n t0. started r n = Some t0 \<Longrightarrow> t0 \<le> clock_ms r + int d"
    by (fastforce simp: recorder_ok_def)
  with \<open>recorder_ok r\<close> Elapse show ?thesis by (simp add: recorder_ok_def)
qed

lemma recorder_ok_foldl: "recorder_ok r \<Longrightarrow> recorder_ok (foldl record_event r evs)"
  by (induction evs arbitrary: r) (simp_all add: recorder_ok_event)

text \<open>
  C6. In the trace of any sequence of recorder events, every recorded latency is
  non-negative and \<open>total_latency_ms\<close> is the sum of the recorded latencies.
\<close>

theorem trace_latencies_consistent:
  "list_all (\<lambda>s. 0 \<le> latency_ms s) (steps (snapshot_trace (run_recorder evs))) \<and>
   total_latency_ms (snapshot_trace (run_recorder evs)) =
     sum_list (map latency_ms (steps (snapshot_trace (run_recorder evs))))"
proof -
  have "recorder_ok (run_recorder evs)"
    unfolding run_recorder_def using recorder_ok_new by (rule recorder_ok_foldl)
  then show ?thesis
    by (simp add: recorder_ok_def snapshot_trace_def)
qed

theorem trace_latencies_consistent_witness:
  "map latency_ms (steps (snapshot_trace (run_recorder example_events))) = [7, 3] \<and>
   total_latency_ms (snapshot_trace (run_recorder example_events)) = 10"
proof -
  have "snapshot_trace (run_recorder example_events) =
      \<lparr>steps = [\<lparr>name = js ''short_term'', latency_ms = 7\<rparr>,
                \<lparr>name = js ''llm_call'', latency_ms = 3\<rparr>],
       total_latency_ms = 10\<rparr>"
    by (simp add: snapshot_trace_def run_recorder_def example_events_def new_recorder_def js_def)
  with trace_latencies_consistent [of example_events] show ?thesis
    by simp
qed

section \<open>Properties of the budget allocation\<close>

lemma cap_corrections_le: "corrections_tokens count (cap_corrections count cap cs) \<le> cap"
proof (induction cs)
  case Nil
  then show ?case by (simp add: corrections_tokens_def)
next
  case (Cons c cs)
  then show ?case by simp
qed

lemma cap_corrections_all:
  "corrections_tokens count cs \<le> cap \<Longrightarrow> cap_corrections count cap cs = cs"
  by (cases cs) simp_all

lemma cap_corrections_suffix: "\<exists>dropped. cs = dropped @ cap_corrections count cap cs"
proof (induction cs)
  case Nil
  then show ?case by simp
next
  case (Cons c cs)
  show ?case
  proof (cases "corrections_tokens count (c # cs) \<le> cap")
    case True
    then show ?thesis by simp
  next
    case False
    from Cons.IH obtain dropped where "cs = dropped @ cap_corrections count cap cs" ..
    then have "c # cs = (c # dropped) @ cap_corrections count cap cs" by simp
    with False show ?thesis
      by (metis cap_corrections.simps(2))
  qed
qed

lemma fit_recent_le: "turns_tokens (fit_recent budget ts) \<le> budget"
proof (induction ts)
  case Nil
  then show ?case by (simp add: turns_tokens_def)
next
  case (Cons t ts)
  then show ?case by simp
qed

lemma fit_text_le: "text_tokens count (fit_text count budget t) \<le> budget"
  by (cases t) (simp_all add: fit_text_def text_tokens_def)

lemma fit_ranked_le: "matches_tokens count (fit_ranked count budget rs) \<le> budget"
proof (induction rs arbitrary: budget)
  case Nil
  then show ?case by (simp add: matches_tokens_def)
next
  case (Cons r rs)
  show ?case
  proof (cases "count (SemanticRecord.content r) \<le> budget")
    case True
    from Cons.IH [of "budget - count (SemanticRecord.content r)"] True show ?thesis
      by (simp add: matches_tokens_def)
  next
    case False
    then show ?thesis by (simp add: matches_tokens_def)
  qed
qed

lemma allocate_Inr_tokens:
  assumes "allocate M cap count active turn_text buf profile matches = Inr p"
  shows "prompt_tokens count p \<le> M"
proof -
  define reserved where
    "reserved = corrections_tokens count (cap_corrections count cap active) + count turn_text"
  define b1 where "b1 = M - reserved"
  define turns where "turns = fit_recent b1 (buffer buf)"
  define b2 where "b2 = b1 - turns_tokens turns"
  define summ where "summ = fit_text count b2 (summary buf)"
  define b3 where "b3 = b2 - text_tokens count summ"
  define prof where "prof = fit_text count b3 profile"
  define b4 where "b4 = b3 - text_tokens count prof"
  define sem where "sem = fit_ranked count b4 matches"
  from assms have fits: "reserved \<le> M"
    by (auto simp: allocate_def Let_def reserved_def split: if_splits)
  with assms have p: "p = \<lparr>corrections = cap_corrections count cap active, current_turn = turn_text,
      short_term = turns, rolling_summary = summ, profile_summary = prof,
      semantic_matches = sem\<rparr>"
    by (simp add: allocate_def Let_def reserved_def b1_def turns_def b2_def summ_def b3_def
        prof_def b4_def sem_def del: diff_diff_left)
  have t1: "turns_tokens turns \<le> b1" unfolding turns_def by (rule fit_recent_le)
  have t2: "text_tokens count summ \<le> b2" unfolding summ_def by (rule fit_text_le)
  have t3: "text_tokens count prof \<le> b3" unfolding prof_def by (rule fit_text_le)
  have t4: "matches_tokens count sem \<le> b4" unfolding sem_def by (rule fit_ranked_le)
  have "prompt_tokens count p =
      reserved + turns_tokens turns + text_tokens count summ + text_tokens count prof +
      matches_tokens count sem"
    by (simp add: p prompt_tokens_def reserved_def)
  also from fits t1 t2 t3 t4 have "\<dots> \<le> M"
    unfolding b1_def b2_def b3_def b4_def by linarith
  finally show ?thesis .
qed

lemma cap_corrections_longest:
  "cs = dropped @ kept \<Longrightarrow> corrections_tokens count kept \<le> cap \<Longrightarrow>
   length kept \<le> length (cap_corrections count cap cs)"
proof (induction cs arbitrary: dropped)
  case Nil
  then show ?case by simp
next
  case (Cons c cs)
  show ?case
  proof (cases "corrections_tokens count (c # cs) \<le> cap")
    case True
    from Cons.prems(1) have "length kept \<le> length (c # cs)"
      by (metis length_append le_add2)
    with True show ?thesis by simp
  next
    case False
    with Cons.prems have "dropped \<noteq> []"
      by auto
    then obtain d ds where d: "dropped = d # ds"
      by (cases dropped) auto
    with Cons.prems(1) have "cs = ds @ kept" by simp
    from Cons.IH [OF this Cons.prems(2)] False show ?thesis by simp
  qed
qed

lemma sample_corrections_differ: "old_correction \<noteq> new_correction"
  by (simp add: old_correction_def new_correction_def)

lemma sample_corrections_tokens:
  "corrections_tokens length [old_correction, new_correction] = 33"
  "corrections_tokens length [new_correction] = 17"
  by (simp_all add: corrections_tokens_def old_correction_def new_correction_def js_def)

lemma sample_tokens:
  "length (js ''Who am I?'') = 9"
  "turns_tokens [earlier_turn, later_turn] = 50"
  "turns_tokens [later_turn] = 20"
  "length (js ''earlier talk'') = 12"
  "length (js ''name: Alice'') = 11"
  "length (SemanticRecord.content climate_record) = 14"
  "length (SemanticRecord.content weather_record) = 11"
  by (simp_all add: turns_tokens_def earlier_turn_def later_turn_def climate_record_def
      weather_record_def js_def)

text \<open>
  C2 (as amended). The allocation fails with \<open>BudgetExhaustionFailure\<close> exactly when
  the mandatory floor, the corrections retained under the cap plus the current turn, does
  not fit \<open>MAX_CONTEXT_WINDOW\<close>, and it fails in no other way; a failed allocation
  yields no prompt, so that nothing mandatory is truncated silently. When it does not
  fail, the total token count of the prompt does not exceed \<open>MAX_CONTEXT_WINDOW\<close>,
  and the prompt holds the retained corrections and the current turn, whole. The
  retained corrections are the newest active ones: what is left of the active
  corrections after dropping the oldest, and the longest such rest that fits the cap, so
  that only as many of the oldest are dropped as the cap requires and none is dropped
  when all fit.
\<close>

theorem allocate_within_budget:
  "(allocate M cap count active turn_text buf profile matches = Inl BudgetExhaustionFailure \<longleftrightarrow>
      M < corrections_tokens count (cap_corrections count cap active) + count turn_text) \<and>
   allocate M cap count active turn_text buf profile matches \<noteq> Inl ValidationFailure \<and>
   (\<forall>p. allocate M cap count active turn_text buf profile matches = Inr p \<longrightarrow>
      prompt_tokens count p \<le> M \<and>
      corrections p = cap_corrections count cap active \<and>
      current_turn p = turn_text) \<and>
   (\<exists>dropped. active = dropped @ cap_corrections count cap active) \<and>
   corrections_tokens count (cap_corrections count cap active) \<le> cap \<and>
   (\<forall>dropped kept. active = dropped @ kept \<and> corrections_tokens count kept \<le> cap \<longrightarrow>
      length kept \<le> length (cap_corrections count cap active)) \<and>
   (corrections_tokens count active \<le> cap \<longrightarrow> cap_corrections count cap active = active)"
proof -
  have a: "allocate M cap count active turn_text buf profile matches = Inl BudgetExhaustionFailure \<longleftrightarrow>
      M < corrections_tokens count (cap_corrections count cap active) + count turn_text"
    by (simp add: allocate_def Let_def)
  have b: "allocate M cap count active turn_text buf profile matches \<noteq> Inl ValidationFailure"
    by (simp add: allocate_def Let_def)
  have c: "prompt_tokens count p \<le> M \<and>
      corrections p = cap_corrections count cap active \<and> current_turn p = turn_text"
    if "allocate M cap count active turn_text buf profile matches = Inr p" for p
  proof -
    from that have "prompt_tokens count p \<le> M" by (rule allocate_Inr_tokens)
    moreover from that have
      "corrections p = cap_corrections count cap active \<and> current_turn p = turn_text"
      by (auto simp: allocate_def Let_def split: if_splits)
    ultimately show ?thesis by simp
  qed
  have d: "length kept \<le> length (cap_corrections count cap active)"
    if "active = dropped @ kept \<and> corrections_tokens count kept \<le> cap" for dropped kept
    using that cap_corrections_longest [of active dropped kept count cap] by simp
  from a b c d cap_corrections_suffix [of active count cap]
    cap_corrections_le [of count cap active] cap_corrections_all [of count active cap]
  show ?thesis by blast
qed

theorem allocate_within_budget_witness:
  "allocate 130 64 length [old_correction, new_correction] (js ''Who am I?'') example_buffer
      (Some (js ''name: Alice'')) [climate_record, weather_record] = Inr full_prompt \<and>
   prompt_tokens length full_prompt = 129 \<and>
   cap_corrections length 64 [old_correction, new_correction] =
     [old_correction, new_correction] \<and>
   cap_corrections length 20 [old_correction, new_correction] = [new_correction] \<and>
   allocate 40 64 length [old_correction, new_correction] (js ''Who am I?'') example_buffer
      (Some (js ''name: Alice'')) [climate_record, weather_record] =
     Inl BudgetExhaustionFailure"
proof -
  note inst = allocate_within_budget [of 130 64 length "[old_correction, new_correction]"
      "js ''Who am I?''" example_buffer "Some (js ''name: Alice'')"
      "[climate_record, weather_record]"]
  have keep: "cap_corrections length 64 [old_correction, new_correction] =
      [old_correction, new_correction]"
    by (simp add: sample_corrections_tokens)
  have cut: "cap_corrections length 20 [old_correction, new_correction] = [new_correction]"
    by (simp add: sample_corrections_tokens)
  have run: "allocate 130 64 length [old_correction, new_correction] (js ''Who am I?'')
      example_buffer (Some (js ''name: Alice'')) [climate_record, weather_record] =
      Inr full_prompt"
    by (simp add: allocate_def Let_def keep sample_corrections_tokens sample_tokens
        full_prompt_def example_buffer_def fit_text_def text_tokens_def)
  with inst have fits: "prompt_tokens length full_prompt \<le> 130"
    by blast
  have total: "prompt_tokens length full_prompt = 129"
    by (simp add: prompt_tokens_def full_prompt_def sample_corrections_tokens sample_tokens
        text_tokens_def matches_tokens_def)
  from allocate_within_budget [of 40 64 length "[old_correction, new_correction]"
      "js ''Who am I?''" example_buffer "Some (js ''name: Alice'')"
      "[climate_record, weather_record]"]
  have fails: "allocate 40 64 length [old_correction, new_correction] (js ''Who am I?'')
      example_buffer (Some (js ''name: Alice'')) [climate_record, weather_record] =
      Inl BudgetExhaustionFailure"
    by (simp add: keep sample_corrections_tokens sample_tokens)
  from run fits total keep cut fails show ?thesis by simp
qed

text \<open>
  C2 as stated fails: with two active corrections that exceed the cap together, the
  allocation does not fail, the prompt holds the short-term turns, both summaries and
  the semantic matches, and it lacks the older of the two active corrections.
\<close>

theorem allocate_all_corrections_counterexample:
  "allocate 130 20 length [old_correction, new_correction] (js ''Who am I?'') example_buffer
      (Some (js ''name: Alice'')) [climate_record, weather_record] = Inr capped_prompt \<and>
   old_correction \<in> set [old_correction, new_correction] \<and>
   old_correction \<notin> set (corrections capped_prompt)"
  by (simp add: allocate_def Let_def sample_corrections_tokens sample_tokens capped_prompt_def
      example_buffer_def sample_corrections_differ fit_text_def text_tokens_def)

section \<open>Properties of validation\<close>





end
